theory Spec2Isabelle
  imports Main
begin

section \<open>Python values and strings\<close>

text \<open>
  A Python \<open>str\<close> is modelled as a \<^typ>\<open>string\<close> holding its UTF-8 encoding, so
  that every text is covered and the ASCII markers of the template grammar are the
  literals of the source. The operations the program applies (\<open>in\<close>, \<open>startswith\<close>,
  \<open>replace\<close>, \<open>split\<close>, \<open>strip\<close>, \<open>splitlines\<close>, the two regular expressions)
  look for ASCII markers, white space and line boundaries only, and UTF-8 is
  self-synchronising, so they act on the encoding as they act on the code points.
\<close>

text \<open>The pound sign U+00A3 of the fee strings, in UTF-8.\<close>

definition pound :: string where
  "pound = [CHR 0xC2, CHR 0xA3]"

text \<open>
  The values \<open>app_inputs\<close> and \<open>firm_details\<close> hold: strings, the boolean
  \<open>claim_assigned\<close>, the integer \<open>hourly_rate\<close>, and \<open>None\<close>. (The date and the
  nested dictionary that the form also stores are read by none of the functions below.)
\<close>

datatype pyval = VNone | VBool bool | VInt int | VStr string

datatype error = KeyError string

text \<open>\<open>str(n)\<close> for an integer: decimal digits, with a minus sign below zero.\<close>

definition digit_char :: "nat \<Rightarrow> char" where
  "digit_char d = ''0123456789'' ! d"

function nat_digits :: "nat \<Rightarrow> string" where
  "nat_digits n = (if n < 10 then [digit_char n] else nat_digits (n div 10) @ [digit_char (n mod 10)])"
  by pat_completeness auto
termination
  by (relation "measure (\<lambda>n. n)") auto

declare nat_digits.simps [simp del]

definition int_str :: "int \<Rightarrow> string" where
  "int_str i = (if i < 0 then CHR ''-'' # nat_digits (nat (- i)) else nat_digits (nat i))"

text \<open>\<open>str(v)\<close>; an f-string field \<open>{v}\<close> formats these values the same way.\<close>

fun py_str :: "pyval \<Rightarrow> string" where
  "py_str VNone = ''None''"
| "py_str (VBool b) = (if b then ''True'' else ''False'')"
| "py_str (VInt i) = int_str i"
| "py_str (VStr s) = s"

definition is_str :: "pyval \<Rightarrow> bool" where
  "is_str v = (case v of VStr _ \<Rightarrow> True | _ \<Rightarrow> False)"

text \<open>\<open>a == b\<close>: a boolean equals the integer 0 or 1 it stands for.\<close>

fun py_eq :: "pyval \<Rightarrow> pyval \<Rightarrow> bool" where
  "py_eq VNone VNone = True"
| "py_eq (VBool a) (VBool b) = (a = b)"
| "py_eq (VBool a) (VInt j) = ((if a then 1 else 0) = j)"
| "py_eq (VInt i) (VBool b) = (i = (if b then 1 else 0))"
| "py_eq (VInt i) (VInt j) = (i = j)"
| "py_eq (VStr s) (VStr t) = (s = t)"
| "py_eq _ _ = False"

subsection \<open>String operations\<close>

text \<open>\<open>s.startswith(p)\<close> and \<open>p in s\<close>.\<close>

definition startswith :: "string \<Rightarrow> string \<Rightarrow> bool" where
  "startswith p s = (take (length p) s = p)"

fun contains :: "string \<Rightarrow> string \<Rightarrow> bool" where
  "contains p [] = (p = [])"
| "contains p (c # cs) = (startswith p (c # cs) \<or> contains p cs)"

text \<open>
  \<open>s.replace(old, new)\<close>: every occurrence of \<open>old\<close>, found from the left without
  overlap, becomes \<open>new\<close>; an empty \<open>old\<close> matches before every character and at
  the end.
\<close>

function replace :: "string \<Rightarrow> string \<Rightarrow> string \<Rightarrow> string" where
  "replace old new s =
     (if old = [] then new @ concat (map (\<lambda>c. c # new) s)
      else if s = [] then []
      else if startswith old s then new @ replace old new (drop (length old) s)
      else hd s # replace old new (tl s))"
  by pat_completeness auto
termination
  by (relation "measure (\<lambda>(old, new, s). length s)") auto

declare replace.simps [simp del]

text \<open>
  White space for \<open>strip()\<close>: the code points U+0009..U+000D, U+001C..U+0020, U+0085,
  U+00A0, U+1680, U+2000..U+200A, U+2028, U+2029, U+202F, U+205F and U+3000, each as
  its UTF-8 encoding.
\<close>

definition whitespace :: "string list" where
  "whitespace =
     map (\<lambda>c. [c]) [CHR 0x09, CHR 0x0A, CHR 0x0B, CHR 0x0C, CHR 0x0D,
                    CHR 0x1C, CHR 0x1D, CHR 0x1E, CHR 0x1F, CHR 0x20] @
     [[CHR 0xC2, CHR 0x85], [CHR 0xC2, CHR 0xA0], [CHR 0xE1, CHR 0x9A, CHR 0x80]] @
     map (\<lambda>c. [CHR 0xE2, CHR 0x80, c])
         [CHR 0x80, CHR 0x81, CHR 0x82, CHR 0x83, CHR 0x84, CHR 0x85, CHR 0x86, CHR 0x87,
          CHR 0x88, CHR 0x89, CHR 0x8A, CHR 0xA8, CHR 0xA9, CHR 0xAF] @
     [[CHR 0xE2, CHR 0x81, CHR 0x9F], [CHR 0xE3, CHR 0x80, CHR 0x80]]"

text \<open>The length of the first token of the list that the text starts with; 0 if none does.\<close>

fun token_len :: "string list \<Rightarrow> string \<Rightarrow> nat" where
  "token_len [] s = 0"
| "token_len (t # ts) s = (if t \<noteq> [] \<and> startswith t s then length t else token_len ts s)"

function drop_tokens :: "string list \<Rightarrow> string \<Rightarrow> string" where
  "drop_tokens ts s = (if token_len ts s = 0 then s else drop_tokens ts (drop (token_len ts s) s))"
  by pat_completeness auto

termination drop_tokens
proof (relation "measure (\<lambda>(ts, s). length s)")
  fix ts :: "string list" and s :: string
  assume nz: "token_len ts s \<noteq> 0"
  have "token_len ts [] = 0"
    by (induction ts) (auto simp: startswith_def)
  with nz have "s \<noteq> []" by auto
  with nz show "((ts, drop (token_len ts s) s), (ts, s)) \<in> measure (\<lambda>(ts, s). length s)"
    by simp
qed simp

declare drop_tokens.simps [simp del]

definition lstrip :: "string \<Rightarrow> string" where
  "lstrip s = drop_tokens whitespace s"

definition rstrip :: "string \<Rightarrow> string" where
  "rstrip s = rev (drop_tokens (map rev whitespace) (rev s))"

definition strip :: "string \<Rightarrow> string" where
  "strip s = rstrip (lstrip s)"

section \<open>Dictionaries\<close>

text \<open>
  \<open>app_inputs\<close> is only read by key, so it is a map. The placeholder map is iterated
  (\<open>items()\<close> in insertion order), so it and \<open>firm_details\<close> are association lists in
  insertion order; \<open>dict_update\<close> is \<open>d.update(other)\<close>: the value of a key already
  present is overwritten in place, a new key goes to the end.
\<close>

type_synonym app_inputs = "string \<rightharpoonup> pyval"
type_synonym pydict = "(string \<times> pyval) list"

definition get_default :: "app_inputs \<Rightarrow> string \<Rightarrow> pyval \<Rightarrow> pyval" where
  "get_default d k dflt = (case d k of Some v \<Rightarrow> v | None \<Rightarrow> dflt)"

definition getitem :: "app_inputs \<Rightarrow> string \<Rightarrow> error + pyval" where
  "getitem d k = (case d k of Some v \<Rightarrow> Inr v | None \<Rightarrow> Inl (KeyError k))"

definition dict_set :: "pydict \<Rightarrow> string \<Rightarrow> pyval \<Rightarrow> pydict" where
  "dict_set d k v =
     (if k \<in> set (map fst d) then map (\<lambda>(k', v'). if k' = k then (k', v) else (k', v')) d
      else d @ [(k, v)])"

fun dict_update :: "pydict \<Rightarrow> pydict \<Rightarrow> pydict" where
  "dict_update d [] = d"
| "dict_update d ((k, v) # other) = dict_update (dict_set d k v) other"

definition lookup :: "pydict \<Rightarrow> string \<Rightarrow> pyval option" where
  "lookup d k = map_of d k"

section \<open>Placeholder resolver\<close>

definition load_firm_details :: pydict where
  "load_firm_details =
     [(''name'', VStr ''Ramsdens Solicitors LLP''), (''short_name'', VStr ''Ramsdens''),
      (''person_responsible_name'', VStr ''Paul Pinder''),
      (''person_responsible_title'', VStr ''Senior Associate''),
      (''supervisor_name'', VStr ''Nick Armitage''), (''supervisor_title'', VStr ''Partner''),
      (''person_responsible_phone'', VStr ''01484 821558''),
      (''person_responsible_mobile'', VStr ''07923 250815''),
      (''person_responsible_email'', VStr ''paul.pinder@ramsdens.co.uk''),
      (''assistant_name'', VStr ''Reece Collier''),
      (''supervisor_contact_for_complaints'', VStr ''Nick Armitage on 01484 507121''),
      (''bank_name'', VStr ''Barclays Bank PLC''),
      (''bank_address'', VStr ''17 Market Place, Huddersfield''),
      (''account_name'', VStr ''Ramsdens Solicitors LLP Client Account''),
      (''sort_code'', VStr ''20-43-12''), (''account_number'', VStr ''03909026''),
      (''marketing_email'', VStr ''dataprotection@ramsdens.co.uk''),
      (''marketing_address'',
       VStr ''Ramsdens Solicitors LLP, Oakley House, 1 Hungerford Road, Edgerton, Huddersfield, HD3 3AL'')]"

text \<open>
  The literal of \<open>get_placeholder_map\<close>: the first four entries store what \<open>get\<close>
  returns, the other ten wrap it in \<open>str\<close>.
\<close>

definition placeholders :: "app_inputs \<Rightarrow> pydict" where
  "placeholders app_inputs =
     [(''qu1_dispute_nature'', get_default app_inputs ''qu1_dispute_nature'' (VStr '''')),
      (''qu2_initial_steps'', get_default app_inputs ''qu2_initial_steps'' (VStr '''')),
      (''qu3_timescales'', get_default app_inputs ''qu3_timescales'' (VStr '''')),
      (''qu4_initial_costs_with_vat'',
       get_default app_inputs ''qu4_initial_costs_with_vat'' (VStr ''XX,XXX'')),
      (''our_ref'', VStr (py_str (get_default app_inputs ''our_ref'' (VStr '''')))),
      (''your_ref'', VStr (py_str (get_default app_inputs ''your_ref'' (VStr '''')))),
      (''letter_date'', VStr (py_str (get_default app_inputs ''letter_date'' (VStr '''')))),
      (''client_name_input'', VStr (py_str (get_default app_inputs ''client_name_input'' (VStr '''')))),
      (''client_salutation'', VStr (py_str (get_default app_inputs ''client_salutation'' (VStr '''')))),
      (''client_address_line1'',
       VStr (py_str (get_default app_inputs ''client_address_line1'' (VStr '''')))),
      (''client_address_line2_conditional'',
       VStr (py_str (get_default app_inputs ''client_address_line2_conditional'' (VStr '''')))),
      (''client_postcode'', VStr (py_str (get_default app_inputs ''client_postcode'' (VStr '''')))),
      (''matter_number'', VStr (py_str (get_default app_inputs ''our_ref'' (VStr '''')))),
      (''name'', VStr (py_str (get_default app_inputs ''name'' (VStr ''''))))]"

definition firm_placeholders :: "pydict \<Rightarrow> pydict" where
  "firm_placeholders firm_details = map (\<lambda>(k, v). (k, VStr (py_str v))) firm_details"

definition get_placeholder_map :: "app_inputs \<Rightarrow> pydict \<Rightarrow> pydict" where
  "get_placeholder_map app_inputs firm_details =
     dict_update (placeholders app_inputs) (firm_placeholders firm_details)"


section \<open>Markup renderer\<close>

text \<open>
  \<open>re.split(r'(<bd>|</bd>|<ins>|</ins>)', text)\<close>: the text between the markers and,
  as the group captures, the markers themselves, in order. No marker is a prefix of
  another, so at most one alternative matches at a position.
\<close>

definition markers :: "string list" where
  "markers = [''<bd>'', ''</bd>'', ''<ins>'', ''</ins>'']"

function re_split_from :: "string \<Rightarrow> string \<Rightarrow> string list" where
  "re_split_from cur s =
     (if s = [] then [cur]
      else if token_len markers s = 0 then re_split_from (cur @ [hd s]) (tl s)
      else cur # take (token_len markers s) s # re_split_from [] (drop (token_len markers s) s))"
  by pat_completeness auto
termination
  by (relation "measure (\<lambda>(cur, s). length s)") auto

declare re_split_from.simps [simp del]

definition re_split :: "string \<Rightarrow> string list" where
  "re_split s = re_split_from [] s"

text \<open>\<open>part.split('\n')\<close>.\<close>

fun split_from :: "string \<Rightarrow> string \<Rightarrow> string list" where
  "split_from cur [] = [cur]"
| "split_from cur (c # cs) =
     (if c = CHR 0x0A then cur # split_from [] cs else split_from (cur @ [c]) cs)"

definition split_newline :: "string \<Rightarrow> string list" where
  "split_newline s = split_from [] s"

text \<open>
  A run of a paragraph: text with its bold and underline flags (every text run is
  Arial, 11 pt), or the empty run holding a line break that
  \<open>paragraph.add_run().add_break()\<close> appends.
\<close>

datatype run = Run string bool bool | Break

datatype alignment = JUSTIFY

text \<open>
  A paragraph of the document, as \<open>doc.add_paragraph()\<close> creates it and the program
  sets it: \<open>numPr\<close> is the pair (\<open>ilvl\<close>, \<open>numId\<close>), spacing is in points, the left
  indent in hundredths of a centimetre.
\<close>

record docx_paragraph =
  runs :: "run list"
  numPr :: "(nat \<times> nat) option"
  alignment :: "alignment option"
  space_before :: "nat option"
  space_after :: "nat option"
  left_indent :: "nat option"

definition add_paragraph :: docx_paragraph where
  "add_paragraph = \<lparr>runs = [], numPr = None, alignment = None, space_before = None,
     space_after = None, left_indent = None\<rparr>"

text \<open>The substitution loop: one \<open>replace\<close> per item of the map, in its order.\<close>

fun substitute :: "pydict \<Rightarrow> string \<Rightarrow> string" where
  "substitute [] processed_text = processed_text"
| "substitute ((placeholder, v) # rest) processed_text =
     substitute rest (replace (''{'' @ placeholder @ ''}'') (py_str v) processed_text)"

text \<open>The inner loop over \<open>enumerate(part.split('\n'))\<close>.\<close>

fun emit_lines :: "nat \<Rightarrow> bool \<Rightarrow> bool \<Rightarrow> string list \<Rightarrow> run list" where
  "emit_lines i is_bold is_underline [] = []"
| "emit_lines i is_bold is_underline (line_part # rest) =
     (if i > 0 then [Break] else []) @ [Run line_part is_bold is_underline] @
     emit_lines (Suc i) is_bold is_underline rest"

text \<open>The loop over the parts, with the two toggles as its state.\<close>

fun markup :: "bool \<Rightarrow> bool \<Rightarrow> string list \<Rightarrow> run list" where
  "markup is_bold is_underline [] = []"
| "markup is_bold is_underline (part # parts) =
     (if part = [] then markup is_bold is_underline parts
      else if part = ''<bd>'' then markup True is_underline parts
      else if part = ''</bd>'' then markup False is_underline parts
      else if part = ''<ins>'' then markup is_bold True parts
      else if part = ''</ins>'' then markup is_bold False parts
      else emit_lines 0 is_bold is_underline (split_newline part) @
           markup is_bold is_underline parts)"

text \<open>The two toggles after the loop has gone through some parts: its state alone.\<close>

fun toggles :: "bool \<times> bool \<Rightarrow> string list \<Rightarrow> bool \<times> bool" where
  "toggles st [] = st"
| "toggles (is_bold, is_underline) (part # parts) =
     (if part = ''<bd>'' then toggles (True, is_underline) parts
      else if part = ''</bd>'' then toggles (False, is_underline) parts
      else if part = ''<ins>'' then toggles (is_bold, True) parts
      else if part = ''</ins>'' then toggles (is_bold, False) parts
      else toggles (is_bold, is_underline) parts)"

definition add_formatted_runs :: "docx_paragraph \<Rightarrow> string \<Rightarrow> pydict \<Rightarrow> docx_paragraph" where
  "add_formatted_runs p text_line placeholder_map =
     p\<lparr>runs := runs p @ markup False False (re_split (substitute placeholder_map text_line))\<rparr>"

section \<open>Conditional blocks\<close>

definition tag_map :: "(string \<times> bool \<times> string) list" where
  "tag_map =
     [(''a1'', True, ''Small Claims Track''), (''a2'', True, ''Fast Track''),
      (''a3'', True, ''Intermediate Track''), (''a4'', True, ''Multi Track''),
      (''u1'', False, ''Small Claims Track''), (''u2'', False, ''Fast Track''),
      (''u3'', False, ''Intermediate Track''), (''u4'', False, ''Multi Track'')]"

definition should_render_track_block :: "string \<Rightarrow> pyval \<Rightarrow> pyval \<Rightarrow> bool" where
  "should_render_track_block tag claim_assigned selected_track =
     (case map_of tag_map tag of
        None \<Rightarrow> False
      | Some (assigned, track) \<Rightarrow>
          py_eq claim_assigned (VBool assigned) \<and> py_eq selected_track (VStr track))"

section \<open>Precedent parser\<close>

text \<open>
  \<open>precedent_content.splitlines()\<close>: the line boundaries are LF, CR, CR LF, VT, FF,
  FS, GS, RS, NEL (U+0085), LS (U+2028) and PS (U+2029); a boundary at the very end
  opens no further line.
\<close>

definition linebreaks :: "string list" where
  "linebreaks =
     [[CHR 0x0D, CHR 0x0A], [CHR 0x0A], [CHR 0x0D], [CHR 0x0B], [CHR 0x0C],
      [CHR 0x1C], [CHR 0x1D], [CHR 0x1E], [CHR 0xC2, CHR 0x85],
      [CHR 0xE2, CHR 0x80, CHR 0xA8], [CHR 0xE2, CHR 0x80, CHR 0xA9]]"

function splitlines_from :: "string \<Rightarrow> string \<Rightarrow> string list" where
  "splitlines_from cur s =
     (if s = [] then (if cur = [] then [] else [cur])
      else if token_len linebreaks s = 0 then splitlines_from (cur @ [hd s]) (tl s)
      else cur # splitlines_from [] (drop (token_len linebreaks s) s))"
  by pat_completeness auto
termination
  by (relation "measure (\<lambda>(cur, s). length s)") auto

declare splitlines_from.simps [simp del]

definition splitlines :: "string \<Rightarrow> string list" where
  "splitlines s = splitlines_from [] s"

text \<open>A logical element: the dictionary with the keys \<open>type\<close>, \<open>content_lines\<close>,
  \<open>block_tag\<close> and \<open>list_type\<close>.\<close>

record element =
  type :: string
  content_lines :: "string list"
  block_tag :: "string option"
  list_type :: "string option"

text \<open>
  The two regular expressions \<open>^\[(indiv|corp|a[1-4]|u[1-4])\]$\<close> and
  \<open>^\[/(indiv|corp|a[1-4]|u[1-4])\]$\<close>, giving group 1; \<open>$\<close> matches at the end and
  before a final newline.
\<close>

definition tags :: "string list" where
  "tags = [''indiv'', ''corp'', ''a1'', ''a2'', ''a3'', ''a4'', ''u1'', ''u2'', ''u3'', ''u4'']"

definition match_tag :: "string \<Rightarrow> string \<Rightarrow> string option" where
  "match_tag opening line =
     find (\<lambda>t. line = opening @ t @ '']'' \<or> line = opening @ t @ [CHR '']'', CHR 0x0A]) tags"

definition match_start_tag :: "string \<Rightarrow> string option" where
  "match_start_tag line = match_tag ''['' line"

definition match_end_tag :: "string \<Rightarrow> string option" where
  "match_end_tag line = match_tag ''[/'' line"

definition determine_list_type :: "string \<Rightarrow> string option" where
  "determine_list_type line =
     (let line = strip line in
      if startswith ''<a>'' line then Some ''letter''
      else if startswith ''<i>'' line then Some ''roman''
      else if startswith ''1.'' line then Some ''numbered''
      else None)"

text \<open>Truth value of an optional string: \<open>None\<close> and the empty string are false.\<close>

definition truthy :: "string option \<Rightarrow> bool" where
  "truthy x = (case x of None \<Rightarrow> False | Some s \<Rightarrow> s \<noteq> [])"

text \<open>\<open>x or d\<close> for an optional string \<open>x\<close>.\<close>

definition py_or :: "string option \<Rightarrow> string \<Rightarrow> string" where
  "py_or x d = (case x of None \<Rightarrow> d | Some s \<Rightarrow> if s = [] then d else s)"

text \<open>
  \<open>flush_block(block_tag, block_lines, list_type)\<close> appends to \<open>logical_elements\<close>;
  the list is passed and returned.
\<close>

definition flush_block ::
  "string option \<Rightarrow> string list \<Rightarrow> string option \<Rightarrow> element list \<Rightarrow> element list" where
  "flush_block tag buffer ltype elements =
     (if buffer = [] then elements
      else let content = strip (hd buffer) in
        if content = [] then
          elements @ [\<lparr>type = ''blank_line'', content_lines = [],
            block_tag = tag, list_type = None\<rparr>]
        else if contains ''<ins>'' content then
          elements @ [\<lparr>type = ''heading'', content_lines = buffer,
            block_tag = tag, list_type = None\<rparr>]
        else if contains ''[FEE_TABLE_PLACEHOLDER]'' content then
          elements @ [\<lparr>type = ''fee_table'', content_lines = buffer,
            block_tag = tag, list_type = None\<rparr>]
        else
          elements @ [\<lparr>type = py_or ltype ''general_paragraph'',
            content_lines = buffer, block_tag = tag, list_type = ltype\<rparr>])"

text \<open>The state of the scanning loop.\<close>

record parser =
  logical_elements :: "element list"
  current_block_tag :: "string option"
  block_lines :: "string list"
  current_list_type :: "string option"

text \<open>A flush of the buffer followed by \<open>block_lines = []\<close>.\<close>

definition flush_and_reset :: "string option \<Rightarrow> parser \<Rightarrow> parser" where
  "flush_and_reset tag st =
     st\<lparr>logical_elements :=
          flush_block tag (block_lines st) (current_list_type st) (logical_elements st),
        block_lines := []\<rparr>"

text \<open>One turn of the \<open>while\<close> loop, on the raw line \<open>lines[i]\<close>.\<close>

definition parse_line :: "parser \<Rightarrow> string \<Rightarrow> parser" where
  "parse_line st raw =
     (let line = strip raw in
      case match_start_tag line of
        Some t \<Rightarrow>
          (if block_lines st \<noteq> [] \<and> current_block_tag st = None
           then flush_and_reset None st else st)
          \<lparr>current_block_tag := Some t\<rparr>
      | None \<Rightarrow>
         (case match_end_tag line of
            Some t \<Rightarrow>
              (if block_lines st \<noteq> [] \<and> current_block_tag st = Some t
               then flush_and_reset (current_block_tag st) st else st)
              \<lparr>current_block_tag := None, current_list_type := None\<rparr>
          | None \<Rightarrow>
              if line \<noteq> [] then
                let new_list_type = determine_list_type line;
                    st1 = (if truthy new_list_type \<and> new_list_type \<noteq> current_list_type st
                           then (if block_lines st \<noteq> []
                                 then flush_and_reset (current_block_tag st) st else st)
                                \<lparr>current_list_type := new_list_type\<rparr>
                           else st)
                in st1\<lparr>block_lines := block_lines st1 @ [raw]\<rparr>
              else
                let st1 = (if block_lines st \<noteq> []
                           then flush_and_reset (current_block_tag st) st else st)
                in st1\<lparr>logical_elements := logical_elements st1 @
                     [\<lparr>type = ''blank_line'', content_lines = [],
                       block_tag = current_block_tag st, list_type = None\<rparr>]\<rparr>))"

definition initial_parser :: parser where
  "initial_parser = \<lparr>logical_elements = [], current_block_tag = None, block_lines = [],
     current_list_type = None\<rparr>"

definition preprocess_precedent :: "string \<Rightarrow> app_inputs \<Rightarrow> element list" where
  "preprocess_precedent precedent_content app_inputs =
     (let st = foldl parse_line initial_parser (splitlines precedent_content) in
      if block_lines st \<noteq> []
      then flush_block (current_block_tag st) (block_lines st) (current_list_type st)
             (logical_elements st)
      else logical_elements st)"

section \<open>Document assembler\<close>

text \<open>
  The document: the numbering definition (abstract numbering 10 with its three levels,
  and the instance 1 that refers to it) and the body, to which paragraphs and tables
  are appended. Indents of a level are in hundredths of a centimetre.
\<close>

record level =
  ilvl :: nat
  numFmt :: string
  lvlText :: string
  start :: nat
  left :: nat
  hanging :: nat

datatype block = Paragraph docx_paragraph | Table "string list list"

record document =
  abstract_num :: "nat \<times> level list"
  num :: "nat \<times> nat"
  body :: "block list"

definition INDENT_FOR_IND_TAG_CM :: nat where "INDENT_FOR_IND_TAG_CM = 125"
definition SUB_LIST_TEXT_START_CM :: nat where "SUB_LIST_TEXT_START_CM = 100"
definition SUB_ROMAN_TEXT_START_CM :: nat where "SUB_ROMAN_TEXT_START_CM = 150"

definition abstract_num_id :: nat where "abstract_num_id = 10"
definition num_instance_id :: nat where "num_instance_id = 1"

definition create_level :: "nat \<Rightarrow> string \<Rightarrow> string \<Rightarrow> nat \<Rightarrow> nat \<Rightarrow> nat \<Rightarrow> level" where
  "create_level i fmt txt left_indent_cm hanging_cm start_val =
     \<lparr>ilvl = i, numFmt = fmt, lvlText = txt, start = start_val, left = left_indent_cm,
      hanging = hanging_cm\<rparr>"

definition new_document :: document where
  "new_document =
     \<lparr>abstract_num = (abstract_num_id,
        [create_level 0 ''decimal'' ''%1.'' 0 100 1,
         create_level 1 ''lowerLetter'' ''(%2)'' SUB_LIST_TEXT_START_CM 100 1,
         create_level 2 ''lowerRoman'' ''(%3)'' SUB_ROMAN_TEXT_START_CM 100 1]),
      num = (num_instance_id, abstract_num_id),
      body = []\<rparr>"

text \<open>
  Whether the loop renders an element; a selection that is read and missing raises
  \<open>KeyError\<close>. The selections are read only for a tagged element.
\<close>

definition render_this_element :: "string option \<Rightarrow> app_inputs \<Rightarrow> error + bool" where
  "render_this_element tag app_inputs =
     (if truthy tag then
        (if tag = Some ''indiv'' then
           (case getitem app_inputs ''client_type'' of
              Inl e \<Rightarrow> Inl e | Inr ct \<Rightarrow> Inr (py_eq ct (VStr ''Individual'')))
         else if tag = Some ''corp'' then
           (case getitem app_inputs ''client_type'' of
              Inl e \<Rightarrow> Inl e | Inr ct \<Rightarrow> Inr (py_eq ct (VStr ''Corporate'')))
         else
           (case getitem app_inputs ''claim_assigned'' of
              Inl e \<Rightarrow> Inl e
            | Inr ca \<Rightarrow>
               (case getitem app_inputs ''selected_track'' of
                  Inl e \<Rightarrow> Inl e
                | Inr tr \<Rightarrow> Inr (should_render_track_block (py_or tag []) ca tr))))
      else Inr True)"

definition add_list_item :: "pydict \<Rightarrow> nat \<Rightarrow> string \<Rightarrow> block" where
  "add_list_item placeholder_map lvl txt =
     (let p = add_paragraph\<lparr>numPr := Some (lvl, num_instance_id)\<rparr>;
          cleaned_content = strip (replace ''<i>'' [] (replace ''<a>'' [] txt))
      in Paragraph ((add_formatted_runs p cleaned_content placeholder_map)
           \<lparr>alignment := Some JUSTIFY, space_after := Some 6\<rparr>))"

text \<open>
  The fee table: \<open>doc.add_table(rows=5, cols=2)\<close>, filled row by row from
  \<open>fee_data\<close>. The five entries address the five rows, so no index is out of range.
\<close>

definition fee_data :: "pyval \<Rightarrow> (string \<times> string) list" where
  "fee_data hourly_rate =
     [(''Grade A'', pound @ ''450 (Partners, Solicitors over 8 years)''),
      (''Grade B'', pound @ ''350 (Solicitors/Legal Executives over 4 years)''),
      (''Grade C'', pound @ py_str hourly_rate @ '' (Solicitors/Legal Executives under 4 years)''),
      (''Grade D'', pound @ ''250 (Trainees, Paralegals)''),
      (''Grade E'', pound @ ''150 (Support Staff)'')]"

fun fill_table :: "nat \<Rightarrow> (string \<times> string) list \<Rightarrow> string list list \<Rightarrow> string list list" where
  "fill_table i [] table = table"
| "fill_table i ((grade, rate) # rest) table =
     fill_table (Suc i) rest (table[i := (table ! i)[0 := grade, 1 := rate]])"

definition add_table :: "nat \<Rightarrow> nat \<Rightarrow> string list list" where
  "add_table rows cols = replicate rows (replicate cols [])"

text \<open>The body of the loop over the elements: the blocks of the document after it.\<close>

definition render_element ::
  "app_inputs \<Rightarrow> pydict \<Rightarrow> element \<Rightarrow> block list \<Rightarrow> error + block list" where
  "render_element app_inputs placeholder_map el doc =
     (case render_this_element (block_tag el) app_inputs of
        Inl e \<Rightarrow> Inl e
      | Inr visible \<Rightarrow>
         if \<not> visible then Inr doc
         else
           let content = (if content_lines el \<noteq> [] then hd (content_lines el) else []) in
           if type el = ''blank_line'' then Inr doc
           else if type el = ''fee_table'' then
             (case getitem app_inputs ''hourly_rate'' of
                Inl e \<Rightarrow> Inl e
              | Inr hourly_rate \<Rightarrow>
                  Inr (doc @ [Table (fill_table 0 (fee_data hourly_rate) (add_table 5 2)),
                              Paragraph (add_paragraph\<lparr>space_after := Some 12\<rparr>)]))
           else if type el = ''heading'' then
             Inr (doc @ [Paragraph ((add_formatted_runs add_paragraph content placeholder_map)
                    \<lparr>space_before := Some 12, space_after := Some 6\<rparr>)])
           else if type el = ''numbered'' then
             Inr (doc @ [add_list_item placeholder_map 0 content])
           else if type el = ''letter'' then
             Inr (doc @ [add_list_item placeholder_map 1 content])
           else if type el = ''roman'' then
             Inr (doc @ [add_list_item placeholder_map 2 content])
           else if type el = ''general_paragraph'' then
             (let cleaned_content = strip (replace ''[ind]'' [] content);
                  p = (if contains ''[ind]'' content
                       then add_paragraph\<lparr>left_indent := Some INDENT_FOR_IND_TAG_CM\<rparr>
                       else add_paragraph)
              in Inr (doc @ [Paragraph ((add_formatted_runs p cleaned_content placeholder_map)
                      \<lparr>alignment := Some JUSTIFY, space_after := Some 12\<rparr>)]))
           else Inr doc)"

fun render_elements ::
  "app_inputs \<Rightarrow> pydict \<Rightarrow> element list \<Rightarrow> block list \<Rightarrow> error + block list" where
  "render_elements app_inputs placeholder_map [] doc = Inr doc"
| "render_elements app_inputs placeholder_map (el # rest) doc =
     (case render_element app_inputs placeholder_map el doc of
        Inl e \<Rightarrow> Inl e
      | Inr doc' \<Rightarrow> render_elements app_inputs placeholder_map rest doc')"

text \<open>An exception is logged and raised again: no document is returned.\<close>

definition process_precedent_text :: "string \<Rightarrow> app_inputs \<Rightarrow> pydict \<Rightarrow> error + document" where
  "process_precedent_text precedent_content app_inputs placeholder_map =
     (case render_elements app_inputs placeholder_map
             (preprocess_precedent precedent_content app_inputs) (body new_document) of
        Inl e \<Rightarrow> Inl e
      | Inr blocks \<Rightarrow> Inr (new_document\<lparr>body := blocks\<rparr>))"


section \<open>Properties of the parser\<close>

text \<open>
  C1 (as amended). A line that begins with the numbered-list marker and contains the
  underline-open marker, arriving as the first line of a flushed buffer while the active
  list type is \<open>numbered\<close>, is classified as a heading with no list type: the flush
  tests the underline-open marker before it consults the active list type.
\<close>

theorem underlined_numbered_line_is_heading:
  assumes "determine_list_type l = Some ''numbered''" and "contains ''<ins>'' (strip l)"
  shows "flush_block tag (l # others) (Some ''numbered'') elements =
         elements @ [\<lparr>type = ''heading'', content_lines = l # others, block_tag = tag,
                      list_type = None\<rparr>]"
proof -
  from assms(2) have "strip l \<noteq> []" by auto
  with assms(2) show ?thesis by (simp add: flush_block_def)
qed

theorem underlined_numbered_line_is_heading_witness:
  "determine_list_type ''1. First item <ins>Heading</ins>'' = Some ''numbered'' \<and>
   contains ''<ins>'' (strip ''1. First item <ins>Heading</ins>'') \<and>
   flush_block (Some ''a1'') [''1. First item <ins>Heading</ins>'', ''more''] (Some ''numbered'') [] =
     [\<lparr>type = ''heading'', content_lines = [''1. First item <ins>Heading</ins>'', ''more''],
       block_tag = Some ''a1'', list_type = None\<rparr>]"
proof -
  have h1: "determine_list_type ''1. First item <ins>Heading</ins>'' = Some ''numbered''"
    by code_simp
  have h2: "contains ''<ins>'' (strip ''1. First item <ins>Heading</ins>'')"
    by code_simp
  show ?thesis
    using h1 h2 underlined_numbered_line_is_heading [OF h1 h2, of "Some ''a1''" "[''more'']" "[]"]
    by simp
qed

text \<open>
  The claim as stated fails: the template line of the specification's own scenario is
  parsed to one element of type heading, not to a numbered list item.
\<close>

theorem numbered_line_not_heading_counterexample:
  "determine_list_type ''1. First item <ins>Heading</ins>'' = Some ''numbered'' \<and>
   preprocess_precedent ''1. First item <ins>Heading</ins>'' Map.empty =
     [\<lparr>type = ''heading'', content_lines = [''1. First item <ins>Heading</ins>''],
       block_tag = None, list_type = None\<rparr>] \<and>
   map type (preprocess_precedent ''1. First item <ins>Heading</ins>'' Map.empty) \<noteq> [''numbered'']"
  by code_simp

lemma match_end_tag_close:
  "tag \<in> set tags \<Longrightarrow> match_end_tag (''[/'' @ tag @ '']'') = Some tag"
  by (auto simp: tags_def match_end_tag_def match_tag_def)

lemma match_start_tag_close:
  "tag \<in> set tags \<Longrightarrow> match_start_tag (''[/'' @ tag @ '']'') = None"
  by (auto simp: tags_def match_start_tag_def match_tag_def)

text \<open>
  C8 (as amended). On a close-tag line \<open>[/tag]\<close>: if the buffer is not empty and \<open>tag\<close>
  is the open block tag, the buffer is flushed tagged with that block and emptied;
  otherwise the buffer and the emitted elements stay as they are. In both cases the block
  tag is cleared and the current list type is reset to none. That is the whole effect on
  the parse state.
\<close>

theorem close_tag_effect:
  assumes "strip raw = ''[/'' @ tag @ '']''" and "tag \<in> set tags"
  shows "parse_line st raw =
     (if block_lines st \<noteq> [] \<and> current_block_tag st = Some tag
      then \<lparr>logical_elements =
              flush_block (Some tag) (block_lines st) (current_list_type st) (logical_elements st),
            current_block_tag = None, block_lines = [], current_list_type = None\<rparr>
      else \<lparr>logical_elements = logical_elements st, current_block_tag = None,
            block_lines = block_lines st, current_list_type = None\<rparr>)"
proof -
  have s: "match_start_tag (strip raw) = None"
    unfolding assms(1) using assms(2) by (rule match_start_tag_close)
  have e: "match_end_tag (strip raw) = Some tag"
    unfolding assms(1) using assms(2) by (rule match_end_tag_close)
  show ?thesis
    unfolding parse_line_def Let_def s e by (simp add: flush_and_reset_def)
qed

theorem close_tag_effect_witness:
  "strip ''  [/a2] '' = ''[/'' @ ''a2'' @ '']'' \<and> ''a2'' \<in> set tags \<and>
   parse_line \<lparr>logical_elements = [], current_block_tag = Some ''a2'', block_lines = [''<a> x''],
                current_list_type = Some ''letter''\<rparr> ''  [/a2] '' =
     \<lparr>logical_elements = [\<lparr>type = ''letter'', content_lines = [''<a> x''],
                              block_tag = Some ''a2'', list_type = Some ''letter''\<rparr>],
      current_block_tag = None, block_lines = [], current_list_type = None\<rparr>"
proof -
  have h1: "strip ''  [/a2] '' = ''[/'' @ ''a2'' @ '']''" by code_simp
  have h2: "''a2'' \<in> set tags" by (simp add: tags_def)
  have f: "flush_block (Some ''a2'') [''<a> x''] (Some ''letter'') [] =
      [\<lparr>type = ''letter'', content_lines = [''<a> x''], block_tag = Some ''a2'',
        list_type = Some ''letter''\<rparr>]"
    by code_simp
  show ?thesis
    using h1 h2 f close_tag_effect [OF h1 h2,
        of "\<lparr>logical_elements = [], current_block_tag = Some ''a2'', block_lines = [''<a> x''],
             current_list_type = Some ''letter''\<rparr>"]
    by simp
qed

text \<open>
  The claim as stated fails: a close tag that matches no open block does more than clear
  the block tag. It also resets the list type, so the buffered numbered item is emitted
  as a general paragraph, where the same template without the close-tag line gives a
  numbered item.
\<close>

theorem close_tag_resets_list_type_counterexample:
  "preprocess_precedent (''1. item'' @ [CHR 0x0A] @ ''[/a1]'' @ [CHR 0x0A] @ ''more'') Map.empty =
     [\<lparr>type = ''general_paragraph'', content_lines = [''1. item'', ''more''],
       block_tag = None, list_type = None\<rparr>] \<and>
   preprocess_precedent (''1. item'' @ [CHR 0x0A] @ ''more'') Map.empty =
     [\<lparr>type = ''numbered'', content_lines = [''1. item'', ''more''],
       block_tag = None, list_type = Some ''numbered''\<rparr>] \<and>
   current_list_type (parse_line \<lparr>logical_elements = [], current_block_tag = None,
       block_lines = [''1. item''], current_list_type = Some ''numbered''\<rparr> ''[/a1]'') = None"
  by code_simp

section \<open>Properties of the renderer\<close>











lemma markup_append:
  "markup b u (before @ after) =
   markup b u before @ markup (fst (toggles (b, u) before)) (snd (toggles (b, u) before)) after"
  by (induction before arbitrary: b u) auto

lemma markup_text_part:
  "part \<noteq> [] \<Longrightarrow> part \<notin> set markers \<Longrightarrow>
   markup b u (part # after) = emit_lines 0 b u (split_newline part) @ markup b u after"
  by (simp add: markers_def)


text \<open>
  C7. The line \<open><bd>Total: {qu4_initial_costs_with_vat}</bd>\<close> with the estimate bound
  to "(pound)500 plus VAT" gives exactly one run, bold and not underlined, reading
  "Total: (pound)500 plus VAT". The runs are those of the loop started with both toggles
  false, and the runs of a text part carry the toggles as the parts before it leave them.
\<close>

theorem runs_carry_toggles:
  "runs (add_formatted_runs add_paragraph ''<bd>Total: {qu4_initial_costs_with_vat}</bd>''
           [(''qu4_initial_costs_with_vat'', VStr (pound @ ''500 plus VAT''))]) =
     [Run (''Total: '' @ pound @ ''500 plus VAT'') True False] \<and>
   runs (add_formatted_runs p text_line placeholder_map) =
     runs p @ markup False False (re_split (substitute placeholder_map text_line)) \<and>
   (part \<noteq> [] \<and> part \<notin> set markers \<longrightarrow>
     markup False False (before @ part # after) =
       markup False False before @
       emit_lines 0 (fst (toggles (False, False) before)) (snd (toggles (False, False) before))
         (split_newline part) @
       markup (fst (toggles (False, False) before)) (snd (toggles (False, False) before)) after)"
proof (intro conjI impI)
  show "runs (add_formatted_runs add_paragraph ''<bd>Total: {qu4_initial_costs_with_vat}</bd>''
           [(''qu4_initial_costs_with_vat'', VStr (pound @ ''500 plus VAT''))]) =
     [Run (''Total: '' @ pound @ ''500 plus VAT'') True False]"
    by code_simp
  show "runs (add_formatted_runs p text_line placeholder_map) =
     runs p @ markup False False (re_split (substitute placeholder_map text_line))"
    by (simp add: add_formatted_runs_def)
  assume a: "part \<noteq> [] \<and> part \<notin> set markers"
  show "markup False False (before @ part # after) =
       markup False False before @
       emit_lines 0 (fst (toggles (False, False) before)) (snd (toggles (False, False) before))
         (split_newline part) @
       markup (fst (toggles (False, False) before)) (snd (toggles (False, False) before)) after"
    unfolding markup_append [of False False before "part # after"]
    using a by (simp add: markup_text_part del: markup.simps)
qed

theorem runs_carry_toggles_witness:
  "''x'' \<noteq> [] \<and> ''x'' \<notin> set markers \<and>
   markup False False ([''a'', ''<bd>'', ''<ins>'', ''</bd>''] @ ''x'' # [''</ins>'', ''y'']) =
     [Run ''a'' False False, Run ''x'' False True, Run ''y'' False False]"
proof -
  have h: "''x'' \<noteq> [] \<and> ''x'' \<notin> set markers" by (simp add: markers_def)
  have a: "markup False False [''a'', ''<bd>'', ''<ins>'', ''</bd>''] = [Run ''a'' False False]"
    by code_simp
  have b: "toggles (False, False) [''a'', ''<bd>'', ''<ins>'', ''</bd>''] = (False, True)"
    by code_simp
  have c: "emit_lines 0 False True (split_newline ''x'') = [Run ''x'' False True]"
    by code_simp
  have d: "markup False True [''</ins>'', ''y''] = [Run ''y'' False False]"
    by code_simp
  from runs_carry_toggles [of add_paragraph "[]" "[]" "''x''"
      "[''a'', ''<bd>'', ''<ins>'', ''</bd>'']" "[''</ins>'', ''y'']"] h
  have "markup False False ([''a'', ''<bd>'', ''<ins>'', ''</bd>''] @ ''x'' # [''</ins>'', ''y'']) =
       markup False False [''a'', ''<bd>'', ''<ins>'', ''</bd>''] @
       emit_lines 0 (fst (toggles (False, False) [''a'', ''<bd>'', ''<ins>'', ''</bd>'']))
         (snd (toggles (False, False) [''a'', ''<bd>'', ''<ins>'', ''</bd>''])) (split_newline ''x'') @
       markup (fst (toggles (False, False) [''a'', ''<bd>'', ''<ins>'', ''</bd>'']))
         (snd (toggles (False, False) [''a'', ''<bd>'', ''<ins>'', ''</bd>''])) [''</ins>'', ''y'']"
    by blast
  then show ?thesis
    unfolding a b c d fst_conv snd_conv using h by simp
qed

section \<open>Properties of the assembler\<close>

lemma track_block_typed:
  "map_of tag_map t = Some (assigned, track) \<Longrightarrow>
   should_render_track_block t (VBool claim_assigned) (VStr selected_track) =
     (claim_assigned = assigned \<and> selected_track = track)"
  by (simp add: should_render_track_block_def)

lemma render_track_tag:
  assumes "app_inputs ''claim_assigned'' = Some (VBool claim_assigned)"
    and "app_inputs ''selected_track'' = Some (VStr selected_track)"
    and "map_of tag_map t = Some (assigned, track)"
  shows "render_this_element (Some t) app_inputs =
         Inr (claim_assigned = assigned \<and> selected_track = track)"
proof -
  from assms(3) have "t \<in> set (map fst tag_map)"
    by (metis map_of_eq_None_iff option.distinct(1) set_map)
  then have t: "t \<noteq> []" "t \<noteq> ''indiv''" "t \<noteq> ''corp''"
    by (auto simp: tag_map_def)
  show ?thesis
    unfolding render_this_element_def
    using t assms(1,2) track_block_typed [OF assms(3)]
    by (simp add: truthy_def getitem_def py_or_def)
qed

lemma render_client_tag:
  assumes "app_inputs ''client_type'' = Some (VStr client_type)"
  shows "render_this_element (Some ''indiv'') app_inputs = Inr (client_type = ''Individual'')"
    and "render_this_element (Some ''corp'') app_inputs = Inr (client_type = ''Corporate'')"
  using assms by (simp_all add: render_this_element_def truthy_def getitem_def)

lemma render_untagged: "render_this_element None app_inputs = Inr True"
  by (simp add: render_this_element_def truthy_def)

lemma invisible_skipped:
  "render_this_element (block_tag el) app_inputs = Inr False \<Longrightarrow>
   render_element app_inputs placeholder_map el doc = Inr doc"
  by (simp add: render_element_def)


text \<open>
  C4. With the three selections given (client type, claim-assigned flag, track),
  whether an element renders is a function of its block tag and the selections: an
  untagged element renders; \<open>indiv\<close> and \<open>corp\<close> render iff the client type is
  Individual and Corporate; \<open>a1..a4\<close> render iff the claim is assigned and the track is
  the tag's track, \<open>u1..u4\<close> iff it is not assigned and the track is the tag's. With an
  assigned claim on the Fast Track, \<open>a2\<close> alone of the eight track tags renders. An
  element that does not render leaves the document as it is.
\<close>

theorem element_visibility:
  assumes "app_inputs ''client_type'' = Some (VStr client_type)"
    and "app_inputs ''claim_assigned'' = Some (VBool claim_assigned)"
    and "app_inputs ''selected_track'' = Some (VStr selected_track)"
  shows "render_this_element None app_inputs = Inr True \<and>
    render_this_element (Some ''indiv'') app_inputs = Inr (client_type = ''Individual'') \<and>
    render_this_element (Some ''corp'') app_inputs = Inr (client_type = ''Corporate'') \<and>
    render_this_element (Some ''a1'') app_inputs = Inr (claim_assigned \<and> selected_track = ''Small Claims Track'') \<and>
    render_this_element (Some ''a2'') app_inputs = Inr (claim_assigned \<and> selected_track = ''Fast Track'') \<and>
    render_this_element (Some ''a3'') app_inputs = Inr (claim_assigned \<and> selected_track = ''Intermediate Track'') \<and>
    render_this_element (Some ''a4'') app_inputs = Inr (claim_assigned \<and> selected_track = ''Multi Track'') \<and>
    render_this_element (Some ''u1'') app_inputs = Inr (\<not> claim_assigned \<and> selected_track = ''Small Claims Track'') \<and>
    render_this_element (Some ''u2'') app_inputs = Inr (\<not> claim_assigned \<and> selected_track = ''Fast Track'') \<and>
    render_this_element (Some ''u3'') app_inputs = Inr (\<not> claim_assigned \<and> selected_track = ''Intermediate Track'') \<and>
    render_this_element (Some ''u4'') app_inputs = Inr (\<not> claim_assigned \<and> selected_track = ''Multi Track'') \<and>
    (claim_assigned \<and> selected_track = ''Fast Track'' \<longrightarrow>
       filter (\<lambda>t. render_this_element (Some t) app_inputs = Inr True)
         [''a1'', ''a2'', ''a3'', ''a4'', ''u1'', ''u2'', ''u3'', ''u4''] = [''a2'']) \<and>
    (render_this_element (block_tag el) app_inputs = Inr False \<longrightarrow>
       render_element app_inputs placeholder_map el doc = Inr doc)"
proof -
  note tr = render_track_tag [of app_inputs claim_assigned selected_track, OF assms(2,3)]
  have a1: "render_this_element (Some ''a1'') app_inputs = Inr (claim_assigned \<and> selected_track = ''Small Claims Track'')"
    by (subst tr [of _ True "''Small Claims Track''"]) (simp_all add: tag_map_def)
  have a2: "render_this_element (Some ''a2'') app_inputs = Inr (claim_assigned \<and> selected_track = ''Fast Track'')"
    by (subst tr [of _ True "''Fast Track''"]) (simp_all add: tag_map_def)
  have a3: "render_this_element (Some ''a3'') app_inputs = Inr (claim_assigned \<and> selected_track = ''Intermediate Track'')"
    by (subst tr [of _ True "''Intermediate Track''"]) (simp_all add: tag_map_def)
  have a4: "render_this_element (Some ''a4'') app_inputs = Inr (claim_assigned \<and> selected_track = ''Multi Track'')"
    by (subst tr [of _ True "''Multi Track''"]) (simp_all add: tag_map_def)
  have u1: "render_this_element (Some ''u1'') app_inputs = Inr (\<not> claim_assigned \<and> selected_track = ''Small Claims Track'')"
    by (subst tr [of _ False "''Small Claims Track''"]) (simp_all add: tag_map_def)
  have u2: "render_this_element (Some ''u2'') app_inputs = Inr (\<not> claim_assigned \<and> selected_track = ''Fast Track'')"
    by (subst tr [of _ False "''Fast Track''"]) (simp_all add: tag_map_def)
  have u3: "render_this_element (Some ''u3'') app_inputs = Inr (\<not> claim_assigned \<and> selected_track = ''Intermediate Track'')"
    by (subst tr [of _ False "''Intermediate Track''"]) (simp_all add: tag_map_def)
  have u4: "render_this_element (Some ''u4'') app_inputs = Inr (\<not> claim_assigned \<and> selected_track = ''Multi Track'')"
    by (subst tr [of _ False "''Multi Track''"]) (simp_all add: tag_map_def)
  have fast: "filter (\<lambda>t. render_this_element (Some t) app_inputs = Inr True)
         [''a1'', ''a2'', ''a3'', ''a4'', ''u1'', ''u2'', ''u3'', ''u4''] = [''a2'']"
    if "claim_assigned \<and> selected_track = ''Fast Track''"
    unfolding filter.simps a1 a2 a3 a4 u1 u2 u3 u4 using that by simp
  show ?thesis
    using render_untagged render_client_tag [of app_inputs client_type, OF assms(1)] a1 a2 a3 a4 u1 u2 u3 u4 fast
      invisible_skipped
    by blast
qed

theorem element_visibility_witness:
  "[''client_type'' \<mapsto> VStr ''Individual'', ''claim_assigned'' \<mapsto> VBool True,
    ''selected_track'' \<mapsto> VStr ''Fast Track''] ''client_type'' = Some (VStr ''Individual'') \<and>
   render_this_element (Some ''indiv'')
     [''client_type'' \<mapsto> VStr ''Individual'', ''claim_assigned'' \<mapsto> VBool True,
      ''selected_track'' \<mapsto> VStr ''Fast Track''] = Inr True \<and>
   render_this_element (Some ''corp'')
     [''client_type'' \<mapsto> VStr ''Individual'', ''claim_assigned'' \<mapsto> VBool True,
      ''selected_track'' \<mapsto> VStr ''Fast Track''] = Inr False \<and>
   filter (\<lambda>t. render_this_element (Some t)
       [''client_type'' \<mapsto> VStr ''Individual'', ''claim_assigned'' \<mapsto> VBool True,
        ''selected_track'' \<mapsto> VStr ''Fast Track''] = Inr True)
     [''a1'', ''a2'', ''a3'', ''a4'', ''u1'', ''u2'', ''u3'', ''u4''] = [''a2'']"
proof -
  let ?ai = "[''client_type'' \<mapsto> VStr ''Individual'', ''claim_assigned'' \<mapsto> VBool True,
    ''selected_track'' \<mapsto> VStr ''Fast Track'']"
  have h1: "?ai ''client_type'' = Some (VStr ''Individual'')" by simp
  have h2: "?ai ''claim_assigned'' = Some (VBool True)" by simp
  have h3: "?ai ''selected_track'' = Some (VStr ''Fast Track'')" by simp
  show ?thesis
    using h1 element_visibility [of ?ai "''Individual''" True "''Fast Track''", OF h1 h2 h3]
    by simp
qed

lemma fill_fee_table:
  "fill_table 0 [(g1, r1), (g2, r2), (g3, r3), (g4, r4), (g5, r5)] (add_table 5 2) =
     [[g1, r1], [g2, r2], [g3, r3], [g4, r4], [g5, r5]]"
  by (simp add: add_table_def eval_nat_numeral)


text \<open>
  C5. A fee-table element that renders appends a table of five rows and two columns and
  then a spacer paragraph. Only the second cell of the third row depends on the input
  (the hourly rate); for the rate 295 it reads "(pound)295 (Solicitors/Legal Executives
  under 4 years)".
\<close>

theorem fee_table_rows:
  assumes "type el = ''fee_table''"
    and "render_this_element (block_tag el) app_inputs = Inr True"
    and "app_inputs ''hourly_rate'' = Some hourly_rate"
  shows "render_element app_inputs placeholder_map el doc =
     Inr (doc @
       [Table [[''Grade A'', pound @ ''450 (Partners, Solicitors over 8 years)''],
               [''Grade B'', pound @ ''350 (Solicitors/Legal Executives over 4 years)''],
               [''Grade C'', pound @ py_str hourly_rate @ '' (Solicitors/Legal Executives under 4 years)''],
               [''Grade D'', pound @ ''250 (Trainees, Paralegals)''],
               [''Grade E'', pound @ ''150 (Support Staff)'']],
        Paragraph \<lparr>runs = [], numPr = None, alignment = None, space_before = None,
          space_after = Some 12, left_indent = None\<rparr>]) \<and>
     pound @ py_str (VInt 295) @ '' (Solicitors/Legal Executives under 4 years)'' =
       pound @ ''295 (Solicitors/Legal Executives under 4 years)''"
proof
  have g: "getitem app_inputs ''hourly_rate'' = Inr hourly_rate"
    using assms(3) by (simp add: getitem_def)
  have t: "type el \<noteq> ''blank_line''"
    using assms(1) by simp
  show "render_element app_inputs placeholder_map el doc =
     Inr (doc @
       [Table [[''Grade A'', pound @ ''450 (Partners, Solicitors over 8 years)''],
               [''Grade B'', pound @ ''350 (Solicitors/Legal Executives over 4 years)''],
               [''Grade C'', pound @ py_str hourly_rate @ '' (Solicitors/Legal Executives under 4 years)''],
               [''Grade D'', pound @ ''250 (Trainees, Paralegals)''],
               [''Grade E'', pound @ ''150 (Support Staff)'']],
        Paragraph \<lparr>runs = [], numPr = None, alignment = None, space_before = None,
          space_after = Some 12, left_indent = None\<rparr>])"
    unfolding render_element_def assms(2) Let_def fee_data_def fill_fee_table g
    using t assms(1) by (simp add: add_paragraph_def)
  have "py_str (VInt 295) = ''295''" by code_simp
  then show "pound @ py_str (VInt 295) @ '' (Solicitors/Legal Executives under 4 years)'' =
       pound @ ''295 (Solicitors/Legal Executives under 4 years)''"
    by simp
qed

theorem fee_table_rows_witness:
  "render_element [''hourly_rate'' \<mapsto> VInt 295] []
     \<lparr>type = ''fee_table'', content_lines = [''[FEE_TABLE_PLACEHOLDER]''], block_tag = None,
      list_type = None\<rparr> [] =
   Inr [Table [[''Grade A'', pound @ ''450 (Partners, Solicitors over 8 years)''],
               [''Grade B'', pound @ ''350 (Solicitors/Legal Executives over 4 years)''],
               [''Grade C'', pound @ ''295 (Solicitors/Legal Executives under 4 years)''],
               [''Grade D'', pound @ ''250 (Trainees, Paralegals)''],
               [''Grade E'', pound @ ''150 (Support Staff)'']],
        Paragraph \<lparr>runs = [], numPr = None, alignment = None, space_before = None,
          space_after = Some 12, left_indent = None\<rparr>]"
proof -
  let ?el = "\<lparr>type = ''fee_table'', content_lines = [''[FEE_TABLE_PLACEHOLDER]''],
    block_tag = None, list_type = None\<rparr>"
  let ?ai = "[''hourly_rate'' \<mapsto> VInt 295]"
  have h1: "type ?el = ''fee_table''" by simp
  have h2: "render_this_element (block_tag ?el) ?ai = Inr True"
    by (simp add: render_this_element_def truthy_def)
  have h3: "?ai ''hourly_rate'' = Some (VInt 295)" by simp
  have r: "py_str (VInt 295) = ''295''" by code_simp
  show ?thesis
    using fee_table_rows [of ?el ?ai "VInt 295" "[]" "[]", OF h1 h2 h3]
    unfolding r by simp
qed

text \<open>
  C9. Of an element of type heading, numbered, letter, roman or general paragraph that
  renders, the assembler renders the first line of \<open>content_lines\<close> only: the lines
  after it do not reach the document.
\<close>

theorem only_first_line_rendered:
  assumes "render_this_element (block_tag el) app_inputs = Inr True"
    and "content_lines el = first # others"
  shows
   "(type el = ''heading'' \<longrightarrow> render_element app_inputs placeholder_map el doc =
       Inr (doc @ [Paragraph ((add_formatted_runs add_paragraph first placeholder_map)
              \<lparr>space_before := Some 12, space_after := Some 6\<rparr>)])) \<and>
    (type el = ''numbered'' \<longrightarrow> render_element app_inputs placeholder_map el doc =
       Inr (doc @ [add_list_item placeholder_map 0 first])) \<and>
    (type el = ''letter'' \<longrightarrow> render_element app_inputs placeholder_map el doc =
       Inr (doc @ [add_list_item placeholder_map 1 first])) \<and>
    (type el = ''roman'' \<longrightarrow> render_element app_inputs placeholder_map el doc =
       Inr (doc @ [add_list_item placeholder_map 2 first])) \<and>
    (type el = ''general_paragraph'' \<longrightarrow> render_element app_inputs placeholder_map el doc =
       Inr (doc @ [Paragraph ((add_formatted_runs
              (if contains ''[ind]'' first
               then add_paragraph\<lparr>left_indent := Some INDENT_FOR_IND_TAG_CM\<rparr> else add_paragraph)
              (strip (replace ''[ind]'' [] first)) placeholder_map)
              \<lparr>alignment := Some JUSTIFY, space_after := Some 12\<rparr>)]))"
proof (intro conjI impI)
  assume "type el = ''heading''"
  with assms show "render_element app_inputs placeholder_map el doc =
       Inr (doc @ [Paragraph ((add_formatted_runs add_paragraph first placeholder_map)
              \<lparr>space_before := Some 12, space_after := Some 6\<rparr>)])"
    by (simp add: render_element_def)
next
  assume "type el = ''numbered''"
  with assms show "render_element app_inputs placeholder_map el doc =
       Inr (doc @ [add_list_item placeholder_map 0 first])"
    by (simp add: render_element_def)
next
  assume "type el = ''letter''"
  with assms show "render_element app_inputs placeholder_map el doc =
       Inr (doc @ [add_list_item placeholder_map 1 first])"
    by (simp add: render_element_def)
next
  assume "type el = ''roman''"
  with assms show "render_element app_inputs placeholder_map el doc =
       Inr (doc @ [add_list_item placeholder_map 2 first])"
    by (simp add: render_element_def)
next
  assume "type el = ''general_paragraph''"
  with assms show "render_element app_inputs placeholder_map el doc =
       Inr (doc @ [Paragraph ((add_formatted_runs
              (if contains ''[ind]'' first
               then add_paragraph\<lparr>left_indent := Some INDENT_FOR_IND_TAG_CM\<rparr> else add_paragraph)
              (strip (replace ''[ind]'' [] first)) placeholder_map)
              \<lparr>alignment := Some JUSTIFY, space_after := Some 12\<rparr>)])"
    by (simp add: render_element_def)
qed

theorem only_first_line_rendered_witness:
  "preprocess_precedent (''alpha'' @ [CHR 0x0A] @ ''beta'') Map.empty =
     [\<lparr>type = ''general_paragraph'', content_lines = [''alpha'', ''beta''], block_tag = None,
       list_type = None\<rparr>] \<and>
   render_element Map.empty []
     \<lparr>type = ''general_paragraph'', content_lines = [''alpha'', ''beta''], block_tag = None,
      list_type = None\<rparr> [] =
   Inr [Paragraph \<lparr>runs = [Run ''alpha'' False False], numPr = None, alignment = Some JUSTIFY,
          space_before = None, space_after = Some 12, left_indent = None\<rparr>]"
proof -
  let ?el = "\<lparr>type = ''general_paragraph'', content_lines = [''alpha'', ''beta''],
    block_tag = None, list_type = None\<rparr>"
  have p: "preprocess_precedent (''alpha'' @ [CHR 0x0A] @ ''beta'') Map.empty = [?el]"
    by code_simp
  have h1: "render_this_element (block_tag ?el) Map.empty = Inr True"
    by (simp add: render_this_element_def truthy_def)
  have h2: "content_lines ?el = ''alpha'' # [''beta'']" by simp
  have c: "contains ''[ind]'' ''alpha'' = False" by code_simp
  have r: "add_formatted_runs add_paragraph (strip (replace ''[ind]'' [] ''alpha'')) [] =
      \<lparr>runs = [Run ''alpha'' False False], numPr = None, alignment = None, space_before = None,
        space_after = None, left_indent = None\<rparr>"
    by code_simp
  show ?thesis
    using p only_first_line_rendered [of ?el Map.empty "''alpha''" "[''beta'']" "[]" "[]", OF h1 h2]
    by (simp add: c r del: contains.simps)
qed

text \<open>
  C3. A numbered element goes to level 0, a letter element to level 1 and a roman element
  to level 2 of numbering instance 1, and the markers \<open><a>\<close> and \<open><i>\<close> are removed
  from the text; the marker \<open>1.\<close> of a numbered element is not removed and is rendered
  as text behind the number that the numbering scheme supplies.
\<close>

theorem numbered_marker_kept:
  "process_precedent_text ''1. First item'' Map.empty [] =
     Inr (new_document\<lparr>body := [Paragraph \<lparr>runs = [Run ''1. First item'' False False],
       numPr = Some (0, 1), alignment = Some JUSTIFY, space_before = None,
       space_after = Some 6, left_indent = None\<rparr>]\<rparr>) \<and>
   process_precedent_text ''<a> Second item'' Map.empty [] =
     Inr (new_document\<lparr>body := [Paragraph \<lparr>runs = [Run ''Second item'' False False],
       numPr = Some (1, 1), alignment = Some JUSTIFY, space_before = None,
       space_after = Some 6, left_indent = None\<rparr>]\<rparr>) \<and>
   process_precedent_text ''<i> Third item'' Map.empty [] =
     Inr (new_document\<lparr>body := [Paragraph \<lparr>runs = [Run ''Third item'' False False],
       numPr = Some (2, 1), alignment = Some JUSTIFY, space_before = None,
       space_after = Some 6, left_indent = None\<rparr>]\<rparr>)"
  by code_simp

section \<open>Properties of the resolver\<close>

lemma map_of_dict_set:
  "map_of (dict_set d k v) k' = (if k' = k then Some v else map_of d k')"
proof (cases "k \<in> set (map fst d)")
  case False
  then have "map_of d k = None" by (simp add: map_of_eq_None_iff)
  with False show ?thesis by (auto simp: dict_set_def map_add_def split: option.splits)
next
  case True
  have "map_of (map (\<lambda>(k', v'). if k' = k then (k', v) else (k', v')) d) k' =
        (if k' = k then (if k \<in> set (map fst d) then Some v else None) else map_of d k')"
    by (induction d) force+
  with True show ?thesis by (simp add: dict_set_def)
qed

lemma lookup_dict_update_other:
  "k \<notin> set (map fst other) \<Longrightarrow> lookup (dict_update d other) k = lookup d k"
  by (induction d other rule: dict_update.induct) (auto simp: lookup_def map_of_dict_set)

lemma lookup_dict_update_cases:
  "lookup (dict_update d other) k = Some v \<Longrightarrow> (k, v) \<in> set other \<or> lookup d k = Some v"
proof (induction d other rule: dict_update.induct)
  case (1 d)
  then show ?case by simp
next
  case (2 d k' v' other)
  from 2 have "(k, v) \<in> set other \<or> lookup (dict_set d k' v') k = Some v" by simp
  then show ?case
  proof
    assume "(k, v) \<in> set other"
    then show ?thesis by simp
  next
    assume a: "lookup (dict_set d k' v') k = Some v"
    show ?thesis
    proof (cases "k = k'")
      case True
      with a have "v = v'" by (simp add: lookup_def map_of_dict_set)
      with True show ?thesis by simp
    next
      case False
      with a have "lookup d k = Some v" by (simp add: lookup_def map_of_dict_set)
      then show ?thesis by simp
    qed
  qed
qed

lemma lookup_dict_update_firm:
  "distinct (map fst other) \<Longrightarrow> (k, v) \<in> set other \<Longrightarrow> lookup (dict_update d other) k = Some v"
proof (induction d other rule: dict_update.induct)
  case (1 d)
  then show ?case by simp
next
  case (2 d k' v' other)
  show ?case
  proof (cases "(k, v) \<in> set other")
    case True
    with 2 show ?thesis by simp
  next
    case False
    with 2(3) have kv: "k = k'" "v = v'" by simp_all
    from 2(2) kv have "k \<notin> set (map fst other)" by simp
    then have "lookup (dict_update (dict_set d k' v') other) k = lookup (dict_set d k' v') k"
      by (rule lookup_dict_update_other)
    with kv show ?thesis by (simp add: lookup_def map_of_dict_set)
  qed
qed

lemma placeholders_distinct: "distinct (map fst (placeholders app_inputs))"
  by (simp add: placeholders_def)

lemma placeholders_coerced_all:
  "list_all (\<lambda>(k, v). k \<in> set [''qu1_dispute_nature'', ''qu2_initial_steps'', ''qu3_timescales'',
      ''qu4_initial_costs_with_vat''] \<or> is_str v) (placeholders app_inputs)"
  by (simp add: placeholders_def is_str_def)

lemma placeholders_default_all:
  "list_all (\<lambda>(k, v). app_inputs (if k = ''matter_number'' then ''our_ref'' else k) = None \<longrightarrow>
      v = VStr (if k = ''qu4_initial_costs_with_vat'' then ''XX,XXX'' else []))
    (placeholders app_inputs)"
  by (simp add: placeholders_def get_default_def)

text \<open>
  C6 (as amended). In the map the resolver builds, every value other than those of the
  four free-text fields \<open>qu1_dispute_nature\<close>, \<open>qu2_initial_steps\<close>, \<open>qu3_timescales\<close>
  and \<open>qu4_initial_costs_with_vat\<close> is a string. A per-request field whose name no firm
  field shares maps to the empty string (to "XX,XXX" for \<open>qu4_initial_costs_with_vat\<close>)
  when the input key it reads is absent, where \<open>matter_number\<close> reads the input key
  \<open>our_ref\<close> and every other field the key of its own name. A name that a firm field
  binds is bound to the firm value, as a string.
\<close>

theorem placeholder_map_values:
  assumes "distinct (map fst firm_details)"
  shows
   "(lookup (get_placeholder_map app_inputs firm_details) k = Some v \<and>
     k \<notin> set [''qu1_dispute_nature'', ''qu2_initial_steps'', ''qu3_timescales'',
               ''qu4_initial_costs_with_vat''] \<longrightarrow> is_str v) \<and>
    (k \<in> set (map fst (placeholders app_inputs)) \<and> k \<notin> set (map fst firm_details) \<and>
     app_inputs (if k = ''matter_number'' then ''our_ref'' else k) = None \<longrightarrow>
       lookup (get_placeholder_map app_inputs firm_details) k =
         Some (VStr (if k = ''qu4_initial_costs_with_vat'' then ''XX,XXX'' else []))) \<and>
    ((k, w) \<in> set firm_details \<longrightarrow>
       lookup (get_placeholder_map app_inputs firm_details) k = Some (VStr (py_str w)))"
proof (intro conjI impI)
  have keys: "map fst (firm_placeholders firm_details) = map fst firm_details"
    by (simp add: firm_placeholders_def case_prod_unfold)
  {
    assume a: "lookup (get_placeholder_map app_inputs firm_details) k = Some v \<and>
      k \<notin> set [''qu1_dispute_nature'', ''qu2_initial_steps'', ''qu3_timescales'',
               ''qu4_initial_costs_with_vat'']"
    then have "lookup (dict_update (placeholders app_inputs) (firm_placeholders firm_details)) k = Some v"
      by (simp only: get_placeholder_map_def)
    then have "(k, v) \<in> set (firm_placeholders firm_details) \<or>
        lookup (placeholders app_inputs) k = Some v"
      by (rule lookup_dict_update_cases)
    then show "is_str v"
    proof
      assume "(k, v) \<in> set (firm_placeholders firm_details)"
      then obtain w' where "v = VStr (py_str w')"
        unfolding firm_placeholders_def by auto
      then show ?thesis by (simp add: is_str_def)
    next
      assume "lookup (placeholders app_inputs) k = Some v"
      then have m: "(k, v) \<in> set (placeholders app_inputs)"
        unfolding lookup_def by (rule map_of_SomeD)
      from placeholders_coerced_all [of app_inputs] m
      have "k \<in> set [''qu1_dispute_nature'', ''qu2_initial_steps'', ''qu3_timescales'',
               ''qu4_initial_costs_with_vat''] \<or> is_str v"
        unfolding list_all_iff by blast
      with a show ?thesis by blast
    qed
  }
  {
    assume b: "k \<in> set (map fst (placeholders app_inputs)) \<and> k \<notin> set (map fst firm_details) \<and>
      app_inputs (if k = ''matter_number'' then ''our_ref'' else k) = None"
    then have "k \<notin> set (map fst firm_details)"
      by blast
    then have "k \<notin> set (map fst (firm_placeholders firm_details))"
      unfolding keys .
    then have "lookup (dict_update (placeholders app_inputs) (firm_placeholders firm_details)) k =
        lookup (placeholders app_inputs) k"
      by (rule lookup_dict_update_other)
    then have e: "lookup (get_placeholder_map app_inputs firm_details) k =
        lookup (placeholders app_inputs) k"
      by (simp only: get_placeholder_map_def)
    from b obtain x where m: "(k, x) \<in> set (placeholders app_inputs)"
      by auto
    from placeholders_default_all [of app_inputs] m b
    have "x = VStr (if k = ''qu4_initial_costs_with_vat'' then ''XX,XXX'' else [])"
      unfolding list_all_iff by blast
    moreover from placeholders_distinct m have "map_of (placeholders app_inputs) k = Some x"
      by (rule map_of_is_SomeI)
    ultimately have "lookup (placeholders app_inputs) k =
         Some (VStr (if k = ''qu4_initial_costs_with_vat'' then ''XX,XXX'' else []))"
      unfolding lookup_def by (simp only:)
    with e show "lookup (get_placeholder_map app_inputs firm_details) k =
         Some (VStr (if k = ''qu4_initial_costs_with_vat'' then ''XX,XXX'' else []))"
      by (simp only:)
  }
  {
    assume c: "(k, w) \<in> set firm_details"
    then have "(k, VStr (py_str w)) \<in> set (firm_placeholders firm_details)"
      unfolding firm_placeholders_def by force
    moreover have "distinct (map fst (firm_placeholders firm_details))"
      using assms by (simp only: keys)
    ultimately
    have "lookup (dict_update (placeholders app_inputs) (firm_placeholders firm_details)) k =
        Some (VStr (py_str w))"
      by (intro lookup_dict_update_firm)
    then show "lookup (get_placeholder_map app_inputs firm_details) k = Some (VStr (py_str w))"
      by (simp only: get_placeholder_map_def)
  }
qed


theorem placeholder_map_values_witness:
  "distinct (map fst load_firm_details) \<and>
   (''name'', VStr ''Ramsdens Solicitors LLP'') \<in> set load_firm_details \<and>
   lookup (get_placeholder_map [''name'' \<mapsto> VStr ''Paul Pinder''] load_firm_details) ''name'' =
     Some (VStr ''Ramsdens Solicitors LLP'')"
proof -
  have d: "distinct (map fst load_firm_details)"
    by code_simp
  have n: "(''name'', VStr ''Ramsdens Solicitors LLP'') \<in> set load_firm_details"
    by (simp add: load_firm_details_def)
  from placeholder_map_values [OF d, of "[''name'' \<mapsto> VStr ''Paul Pinder'']" "''name''" VNone
      "VStr ''Ramsdens Solicitors LLP''"] n
  have "lookup (get_placeholder_map [''name'' \<mapsto> VStr ''Paul Pinder''] load_firm_details) ''name'' =
     Some (VStr (py_str (VStr ''Ramsdens Solicitors LLP'')))"
    by blast
  with d n show ?thesis by simp
qed


text \<open>
  The claim as stated fails: a free-text answer that is not a string stays as it is, and
  \<open>matter_number\<close>, absent from the inputs, is bound to the reference and not to the
  empty string.
\<close>

theorem placeholder_map_counterexample:
  "lookup (get_placeholder_map [''qu1_dispute_nature'' \<mapsto> VInt 5, ''our_ref'' \<mapsto> VStr ''PDP/1'']
      load_firm_details) ''qu1_dispute_nature'' = Some (VInt 5) \<and>
   \<not> is_str (VInt 5) \<and>
   [''qu1_dispute_nature'' \<mapsto> VInt 5, ''our_ref'' \<mapsto> VStr ''PDP/1''] ''matter_number'' = None \<and>
   lookup (get_placeholder_map [''qu1_dispute_nature'' \<mapsto> VInt 5, ''our_ref'' \<mapsto> VStr ''PDP/1'']
      load_firm_details) ''matter_number'' = Some (VStr ''PDP/1'')"
proof (intro conjI)
  let ?ai = "[''qu1_dispute_nature'' \<mapsto> VInt 5, ''our_ref'' \<mapsto> VStr ''PDP/1'']"
  have k1: "''qu1_dispute_nature'' \<notin> set (map fst (firm_placeholders load_firm_details))"
    by code_simp
  have k2: "''matter_number'' \<notin> set (map fst (firm_placeholders load_firm_details))"
    by code_simp
  show "lookup (get_placeholder_map ?ai load_firm_details) ''qu1_dispute_nature'' = Some (VInt 5)"
    unfolding get_placeholder_map_def lookup_dict_update_other [OF k1]
    by (simp add: lookup_def placeholders_def get_default_def)
  show "lookup (get_placeholder_map ?ai load_firm_details) ''matter_number'' = Some (VStr ''PDP/1'')"
    unfolding get_placeholder_map_def lookup_dict_update_other [OF k2]
    by (simp add: lookup_def placeholders_def get_default_def)
  show "\<not> is_str (VInt 5)" by (simp add: is_str_def)
  show "?ai ''matter_number'' = None" by simp
qed


text \<open>
  C10. The value bound to \<open>matter_number\<close> equals the value bound to \<open>our_ref\<close>: both
  entries are \<open>str(app_inputs.get('our_ref', ''))\<close>, and the input key
  \<open>matter_number\<close> is never read. The firm details are the fixed static fields, which
  bind neither name.
\<close>

theorem matter_number_is_our_ref:
  assumes "''our_ref'' \<notin> set (map fst firm_details)"
    and "''matter_number'' \<notin> set (map fst firm_details)"
  shows "lookup (get_placeholder_map app_inputs firm_details) ''matter_number'' =
           lookup (get_placeholder_map app_inputs firm_details) ''our_ref'' \<and>
         lookup (get_placeholder_map app_inputs firm_details) ''our_ref'' =
           Some (VStr (py_str (get_default app_inputs ''our_ref'' (VStr ''''))))"
proof -
  have keys: "map fst (firm_placeholders firm_details) = map fst firm_details"
    by (simp add: firm_placeholders_def case_prod_unfold)
  have a: "lookup (get_placeholder_map app_inputs firm_details) ''matter_number'' =
           lookup (placeholders app_inputs) ''matter_number''"
    unfolding get_placeholder_map_def using assms(2) keys
    by (intro lookup_dict_update_other) simp
  have b: "lookup (get_placeholder_map app_inputs firm_details) ''our_ref'' =
           lookup (placeholders app_inputs) ''our_ref''"
    unfolding get_placeholder_map_def using assms(1) keys
    by (intro lookup_dict_update_other) simp
  show ?thesis unfolding a b by (simp add: lookup_def placeholders_def)
qed

theorem matter_number_is_our_ref_witness:
  "lookup (get_placeholder_map [''our_ref'' \<mapsto> VStr ''PDP/10011/001'', ''matter_number'' \<mapsto> VStr ''M1'']
             load_firm_details) ''matter_number'' = Some (VStr ''PDP/10011/001'') \<and>
   lookup (get_placeholder_map [''our_ref'' \<mapsto> VStr ''PDP/10011/001'', ''matter_number'' \<mapsto> VStr ''M1'']
             load_firm_details) ''our_ref'' = Some (VStr ''PDP/10011/001'')"
proof -
  have h1: "''our_ref'' \<notin> set (map fst load_firm_details)"
    by (simp add: load_firm_details_def)
  have h2: "''matter_number'' \<notin> set (map fst load_firm_details)"
    by (simp add: load_firm_details_def)
  show ?thesis
    using matter_number_is_our_ref [OF h1 h2,
        of "[''our_ref'' \<mapsto> VStr ''PDP/10011/001'', ''matter_number'' \<mapsto> VStr ''M1'']"]
    by (simp add: get_default_def)
qed

end
